theory Spec2Isabelle
  imports Main
begin

section \<open>Assurance levels (src/python/basic_usage.py)\<close>

text \<open>
  Python's \<^verbatim>\<open>list.index(x)\<close>: the position of the first element equal to \<open>x\<close>;
  a \<^verbatim>\<open>ValueError\<close> (here \<open>None\<close>) when there is none.
\<close>

fun index_of :: "'a list \<Rightarrow> 'a \<Rightarrow> nat option" where
  "index_of [] x = None"
| "index_of (y # ys) x = (if y = x then Some 0 else map_option Suc (index_of ys x))"

text \<open>
  \<^verbatim>\<open>
  def _compare_assurance_levels(self, current: str, required: str) -> bool:
      levels = ['L0', 'L1', 'L2', 'L3', 'L4KYC', 'L4FIN']
      try:
          current_index = levels.index(current)
          required_index = levels.index(required)
          return current_index >= required_index
      except ValueError:
          return False
  \<close>
\<close>

definition levels :: "string list" where
  "levels = [''L0'', ''L1'', ''L2'', ''L3'', ''L4KYC'', ''L4FIN'']"

definition compare_assurance_levels :: "string \<Rightarrow> string \<Rightarrow> bool" where
  "compare_assurance_levels current required =
     (case index_of levels current of
        None \<Rightarrow> False
      | Some current_index \<Rightarrow>
          (case index_of levels required of
             None \<Rightarrow> False
           | Some required_index \<Rightarrow> current_index \<ge> required_index))"


section \<open>Per-transaction refund limit (src/python/basic_usage.py)\<close>

text \<open>
  The refund block of \<^verbatim>\<open>demonstrate_capabilities_and_limits\<close>, from the fetched passport
  on. The passport is the JSON object of the response: its \<^verbatim>\<open>capabilities\<close> are a list of
  objects with an \<^verbatim>\<open>id\<close>, its \<^verbatim>\<open>limits\<close> a dictionary, here with integer values. The line
  the block prints is its outcome.
  \<^verbatim>\<open>
  has_refund_cap = any(cap['id'] == 'finance.payment.refund' for cap in passport.get('capabilities', []))
  if has_refund_cap:
      if passport.get('limits', {}).get('refund_amount_max_per_tx'):
          refund_amount = 5000  # $50.00 in cents
          max_per_tx = passport['limits']['refund_amount_max_per_tx']
          if refund_amount <= max_per_tx:
              print(f'... Refund amount ${refund_amount/100} is within per-transaction limit of ${max_per_tx/100}')
          else:
              print(f'... Refund amount ${refund_amount/100} exceeds per-transaction limit of ${max_per_tx/100}')
  else:
      print('Agent does not have refund capability')
  \<close>
  The requested amount is the literal 5000. Both lines format \<^verbatim>\<open>max_per_tx/100\<close>: the
  true division of an integer yields the nearest float and raises \<^verbatim>\<open>OverflowError\<close> when
  that is beyond the largest float, that is when the quotient reaches
  \<open>2 ^ 1024 - 2 ^ 970\<close> in absolute value. Nothing in the function catches it.
\<close>

record capability =
  cap_id :: string

record passport_data =
  capabilities :: "capability list option"
  limits :: "(string \<rightharpoonup> int) option"

datatype limit_outcome =
    WithinLimit
  | ExceedsLimit
  | NotChecked
  | NoRefundCapability
  | OverflowErrorRaised

definition has_refund_cap :: "passport_data \<Rightarrow> bool" where
  "has_refund_cap passport =
     list_ex (\<lambda>cap. cap_id cap = ''finance.payment.refund'')
       (case capabilities passport of None \<Rightarrow> [] | Some caps \<Rightarrow> caps)"

text \<open>
  \<^verbatim>\<open>passport.get('limits', {}).get(name)\<close>; the value is then tested for truth, and an
  integer is true when it is not zero.
\<close>

definition get_limit :: "passport_data \<Rightarrow> string \<Rightarrow> int option" where
  "get_limit passport name = (case limits passport of None \<Rightarrow> None | Some l \<Rightarrow> l name)"

definition int_truthy :: "int option \<Rightarrow> bool" where
  "int_truthy v = (case v of None \<Rightarrow> False | Some n \<Rightarrow> n \<noteq> 0)"

definition hundredth_overflows :: "int \<Rightarrow> bool" where
  "hundredth_overflows x \<longleftrightarrow> 100 * (2 ^ 1024 - 2 ^ 970) \<le> \<bar>x\<bar>"

definition demonstrate_refund_limit :: "passport_data \<Rightarrow> limit_outcome" where
  "demonstrate_refund_limit passport =
     (if has_refund_cap passport then
        (if int_truthy (get_limit passport ''refund_amount_max_per_tx'') then
           (let refund_amount = 5000
            in case get_limit passport ''refund_amount_max_per_tx'' of
                 Some max_per_tx \<Rightarrow>
                   if refund_amount \<le> max_per_tx then
                     (if hundredth_overflows refund_amount \<or> hundredth_overflows max_per_tx
                      then OverflowErrorRaised else WithinLimit)
                   else
                     (if hundredth_overflows refund_amount \<or> hundredth_overflows max_per_tx
                      then OverflowErrorRaised else ExceedsLimit)
               | None \<Rightarrow> NotChecked)
         else NotChecked)
      else NoRefundCapability)"


section \<open>Retry loop (src/python/basic_usage.py)\<close>










section \<open>MCP headers and allowlist (src/python/mcp_enforcement.py)\<close>

text \<open>
  Strings are sequences of code points below 256, as a header value decoded from
  Latin-1 is. \<^verbatim>\<open>str.split(",")\<close> cuts at every comma and keeps empty pieces;
  \<^verbatim>\<open>str.strip()\<close> removes the white space of both ends, white space being the code
  points on which \<^verbatim>\<open>str.isspace\<close> holds; \<^verbatim>\<open>sep.join(xs)\<close> puts \<open>sep\<close> between the elements.
\<close>

fun split_on :: "char \<Rightarrow> string \<Rightarrow> string list" where
  "split_on c [] = [[]]"
| "split_on c (x # xs) =
     (if x = c then [] # split_on c xs
      else (case split_on c xs of [] \<Rightarrow> [[x]] | p # ps \<Rightarrow> (x # p) # ps))"

definition is_space :: "char \<Rightarrow> bool" where
  "is_space c \<longleftrightarrow> c \<in> set [CHR 0x09, CHR 0x0A, CHR 0x0B, CHR 0x0C, CHR 0x0D,
                              CHR 0x1C, CHR 0x1D, CHR 0x1E, CHR 0x1F, CHR 0x20,
                              CHR 0x85, CHR 0xA0]"

definition strip :: "string \<Rightarrow> string" where
  "strip s = rev (dropWhile is_space (rev (dropWhile is_space s)))"

fun join :: "string \<Rightarrow> string list \<Rightarrow> string" where
  "join sep [] = []"
| "join sep [x] = x"
| "join sep (x # y # ys) = x @ sep @ join sep (y # ys)"

text \<open>
  \<^verbatim>\<open>a or b\<close> on two optional strings: \<open>a\<close> when it is true (present and not empty),
  \<open>b\<close> otherwise.
\<close>

definition str_truthy :: "string option \<Rightarrow> bool" where
  "str_truthy v = (case v of None \<Rightarrow> False | Some s \<Rightarrow> s \<noteq> [])"

definition str_or :: "string option \<Rightarrow> string option \<Rightarrow> string option" where
  "str_or a b = (if str_truthy a then a else b)"

text \<open>
  \<^verbatim>\<open>
  def extract_mcp_headers(request):
      servers_header = request.headers.get("X-MCP-Servers") or request.headers.get("X-MCP-Server")
      tools_header = request.headers.get("X-MCP-Tools") or request.headers.get("X-MCP-Tool")
      servers = []
      if servers_header:
          servers = [s.strip() for s in servers_header.split(",")] if "," in servers_header else [servers_header]
      tools = []
      if tools_header:
          tools = [t.strip() for t in tools_header.split(",")] if "," in tools_header else [tools_header]
      return {"servers": servers, "tools": tools, "session": request.headers.get("X-MCP-Session"),
              "server": servers[0] if servers else None, "tool": tools[0] if tools else None}
  \<close>
\<close>

record mcp_headers =
  servers :: "string list"
  tools :: "string list"
  session :: "string option"
  server :: "string option"
  tool :: "string option"

definition servers_header :: "(string \<rightharpoonup> string) \<Rightarrow> string option" where
  "servers_header headers = str_or (headers ''X-MCP-Servers'') (headers ''X-MCP-Server'')"

definition tools_header :: "(string \<rightharpoonup> string) \<Rightarrow> string option" where
  "tools_header headers = str_or (headers ''X-MCP-Tools'') (headers ''X-MCP-Tool'')"

definition parse_list_header :: "string option \<Rightarrow> string list" where
  "parse_list_header header =
     (if str_truthy header then
        (case header of
           None \<Rightarrow> []
         | Some h \<Rightarrow> if CHR '','' \<in> set h then map strip (split_on (CHR '','') h) else [h])
      else [])"

definition first_or_none :: "string list \<Rightarrow> string option" where
  "first_or_none xs = (case xs of [] \<Rightarrow> None | x # _ \<Rightarrow> Some x)"

definition extract_mcp_headers :: "(string \<rightharpoonup> string) \<Rightarrow> mcp_headers" where
  "extract_mcp_headers headers =
     (let servers = parse_list_header (servers_header headers);
          tools = parse_list_header (tools_header headers)
      in \<lparr>servers = servers, tools = tools, session = headers ''X-MCP-Session'',
          server = first_or_none servers, tool = first_or_none tools\<rparr>)"

text \<open>
  \<^verbatim>\<open>
  async def validate_mcp_against_passport(agent_id, mcp_headers) -> bool:
      try:
          passport = await client.get_passport_view(agent_id)
          allowed_servers = passport.get("mcp", {}).get("servers", [])
          allowed_tools = passport.get("mcp", {}).get("tools", [])
          if mcp_headers.get("servers"):
              unauthorized_servers = [server for server in mcp_headers["servers"]
                                      if server not in allowed_servers]
              if unauthorized_servers:
                  raise HTTPException(status_code=403, detail={"error": "mcp_server_not_allowed",
                      "message": f"MCP server(s) {', '.join(unauthorized_servers)} not in passport allowlist. "
                                 f"Allowed servers: {', '.join(allowed_servers)}"})
          if mcp_headers.get("tools"):
              unauthorized_tools = [tool for tool in mcp_headers["tools"] if tool not in allowed_tools]
              if unauthorized_tools:
                  raise HTTPException(status_code=403, detail={"error": "mcp_tool_not_allowed",
                      "message": f"MCP tool(s) {', '.join(unauthorized_tools)} not in passport allowlist. "
                                 f"Allowed tools: {', '.join(allowed_tools)}"})
          return True
      except AportError as e:
          raise HTTPException(status_code=e.status if hasattr(e, "status") else 500,
                              detail={"error": "passport_fetch_failed", "message": str(e)})
  \<close>
  The client of the SDK is outside the repository: \<^verbatim>\<open>get_passport_view\<close> is a parameter
  that answers with the passport or raises an \<^verbatim>\<open>AportError\<close>.
\<close>

record mcp_allowlist =
  mcp_servers :: "string list option"
  mcp_tools :: "string list option"

record passport_view =
  mcp :: "mcp_allowlist option"

record aport_error =
  status :: "int option"
  error_message :: string

datatype http_exception = HTTPException (status_code: int) (error: string) (message: string)

definition allowed_servers :: "passport_view \<Rightarrow> string list" where
  "allowed_servers passport =
     (case mcp passport of
        None \<Rightarrow> []
      | Some m \<Rightarrow> (case mcp_servers m of None \<Rightarrow> [] | Some l \<Rightarrow> l))"

definition allowed_tools :: "passport_view \<Rightarrow> string list" where
  "allowed_tools passport =
     (case mcp passport of
        None \<Rightarrow> []
      | Some m \<Rightarrow> (case mcp_tools m of None \<Rightarrow> [] | Some l \<Rightarrow> l))"

definition unauthorized :: "string list \<Rightarrow> string list \<Rightarrow> string list" where
  "unauthorized requested allowed = filter (\<lambda>x. x \<notin> set allowed) requested"

definition validate_mcp_against_passport ::
  "(string \<Rightarrow> aport_error + passport_view) \<Rightarrow> string \<Rightarrow> mcp_headers \<Rightarrow> http_exception + bool" where
  "validate_mcp_against_passport get_passport_view agent_id mcp_headers =
     (case get_passport_view agent_id of
        Inl e \<Rightarrow>
          Inl (HTTPException (case status e of Some s \<Rightarrow> s | None \<Rightarrow> 500)
                 ''passport_fetch_failed'' (error_message e))
      | Inr passport \<Rightarrow>
          if servers mcp_headers \<noteq> []
             \<and> unauthorized (servers mcp_headers) (allowed_servers passport) \<noteq> []
          then Inl (HTTPException 403 ''mcp_server_not_allowed''
                 (''MCP server(s) ''
                  @ join '', '' (unauthorized (servers mcp_headers) (allowed_servers passport))
                  @ '' not in passport allowlist. Allowed servers: ''
                  @ join '', '' (allowed_servers passport)))
          else if tools mcp_headers \<noteq> []
             \<and> unauthorized (tools mcp_headers) (allowed_tools passport) \<noteq> []
          then Inl (HTTPException 403 ''mcp_tool_not_allowed''
                 (''MCP tool(s) ''
                  @ join '', '' (unauthorized (tools mcp_headers) (allowed_tools passport))
                  @ '' not in passport allowlist. Allowed tools: ''
                  @ join '', '' (allowed_tools passport)))
          else Inr True)"

text \<open>
  The endpoints call the validation only when a server or a tool was requested:
  \<^verbatim>\<open>
  mcp_headers = extract_mcp_headers(request)
  if mcp_headers.get("servers") or mcp_headers.get("tools"):
      await validate_mcp_against_passport(x_agent_passport_id, mcp_headers)
  \<close>
\<close>

definition endpoint_mcp_validation ::
  "(string \<Rightarrow> aport_error + passport_view) \<Rightarrow> string \<Rightarrow> mcp_headers \<Rightarrow> http_exception + bool" where
  "endpoint_mcp_validation get_passport_view agent_id mcp_headers =
     (if servers mcp_headers \<noteq> [] \<or> tools mcp_headers \<noteq> []
      then validate_mcp_against_passport get_passport_view agent_id mcp_headers
      else Inr True)"


section \<open>Python values, decisions and exceptions\<close>

text \<open>
  Metadata entries, context fields and the fields of a decision are untyped in the
  source (\<^verbatim>\<open>Dict[str, Any]\<close>); they are values of the following type, with Python's
  truth test. \<^verbatim>\<open>a or b\<close> is \<open>a\<close> when \<open>a\<close> is true and \<open>b\<close> otherwise; \<^verbatim>\<open>d.get(k)\<close> is
  \<^verbatim>\<open>None\<close> for a missing key.
\<close>

datatype pyval =
    PNone
  | PBool bool
  | PInt int
  | PStr string
  | PList "pyval list"
  | PDict "(string \<times> pyval) list"

fun truthy :: "pyval \<Rightarrow> bool" where
  "truthy PNone = False"
| "truthy (PBool b) = b"
| "truthy (PInt n) = (n \<noteq> 0)"
| "truthy (PStr s) = (s \<noteq> [])"
| "truthy (PList xs) = (xs \<noteq> [])"
| "truthy (PDict kvs) = (kvs \<noteq> [])"

definition py_or :: "pyval \<Rightarrow> pyval \<Rightarrow> pyval" where
  "py_or a b = (if truthy a then a else b)"

definition md_get :: "(string \<rightharpoonup> pyval) \<Rightarrow> string \<Rightarrow> pyval" where
  "md_get d k = (case d k of None \<Rightarrow> PNone | Some v \<Rightarrow> v)"

definition md_get_default :: "(string \<rightharpoonup> pyval) \<Rightarrow> string \<Rightarrow> pyval \<Rightarrow> pyval" where
  "md_get_default d k dflt = (case d k of None \<Rightarrow> dflt | Some v \<Rightarrow> v)"

text \<open>
  Iterating a value: a list yields its elements, a string its characters, a dictionary
  its keys; a number, a truth value and \<^verbatim>\<open>None\<close> raise \<^verbatim>\<open>TypeError\<close>.
\<close>

datatype iteration = NotIterable | Elements "pyval list"

fun iter_values :: "pyval \<Rightarrow> iteration" where
  "iter_values (PList xs) = Elements xs"
| "iter_values (PStr s) = Elements (map (\<lambda>c. PStr [c]) s)"
| "iter_values (PDict kvs) = Elements (map (\<lambda>kv. PStr (fst kv)) kvs)"
| "iter_values _ = NotIterable"

text \<open>
  \<^verbatim>\<open>PolicyVerificationResponse\<close> of the SDK, and the request \<^verbatim>\<open>verify_policy\<close> receives
  (its \<^verbatim>\<open>context\<close> argument is the field \<open>policy_context\<close>).
\<close>

record decision =
  decision_id :: string
  allow :: bool
  assurance_level :: pyval
  reasons :: pyval

record verify_request =
  agent_id :: pyval
  policy_id :: pyval
  policy_context :: "string \<rightharpoonup> pyval"
  idempotency_key :: pyval

text \<open>
  The message of an \<^verbatim>\<open>AuthorizationError\<close> is one of two formatted strings:
  \<^verbatim>\<open>f"Authorization denied: {decision.reasons or 'Policy check failed'}"\<close>, kept with the
  value it interpolates, and \<^verbatim>\<open>f"Action denied: {...}"\<close>, kept with the joined text.
\<close>

datatype auth_message = AuthorizationDenied pyval | ActionDenied string

datatype py_exception =
    AportError aport_error
  | AuthorizationError decision auth_message
  | ImportError
  | TypeError
  | AttributeError
  | OtherException string


section \<open>Pre-action authorization (src/openai-agents/pre_action_authorization.py)\<close>

text \<open>
  The client of the SDK is outside the repository. It is a parameter: a remote
  authority with a state of its own, which answers a request with a decision or
  raises. The world records every request handed to the client and every invocation
  of the wrapped function.
\<close>

type_synonym 's client = "verify_request \<Rightarrow> 's \<Rightarrow> (py_exception + decision) \<times> 's"

record 's world =
  remote :: 's
  sent :: "verify_request list"
  func_calls :: nat

text \<open>
  \<^verbatim>\<open>
  async def verify(self, agent_id, policy_id, context, idempotency_key=None):
      decision = await self.client.verify_policy(agent_id=agent_id, policy_id=policy_id,
                                                 context=context, idempotency_key=idempotency_key)
      if not decision.allow:
          raise AuthorizationError(decision,
              f"Authorization denied: {decision.reasons or 'Policy check failed'}")
      return decision
  \<close>
\<close>

definition request_of ::
  "string \<Rightarrow> string \<Rightarrow> (string \<rightharpoonup> pyval) \<Rightarrow> string option \<Rightarrow> verify_request" where
  "request_of agent policy ctx key =
     \<lparr>agent_id = PStr agent, policy_id = PStr policy, policy_context = ctx,
      idempotency_key = (case key of None \<Rightarrow> PNone | Some k \<Rightarrow> PStr k)\<rparr>"

definition verify ::
  "'s client \<Rightarrow> string \<Rightarrow> string \<Rightarrow> (string \<rightharpoonup> pyval) \<Rightarrow> string option \<Rightarrow> 's world
     \<Rightarrow> (py_exception + decision) \<times> 's world" where
  "verify client agent policy ctx key w =
     (let request = request_of agent policy ctx key;
          answer = client request (remote w);
          w' = w\<lparr>remote := snd answer, sent := sent w @ [request]\<rparr>
      in case fst answer of
           Inl e \<Rightarrow> (Inl e, w')
         | Inr decision \<Rightarrow>
             if \<not> allow decision then
               (Inl (AuthorizationError decision
                      (AuthorizationDenied (py_or (reasons decision) (PStr ''Policy check failed'')))), w')
             else (Inr decision, w'))"








section \<open>Agent-framework middleware (src/microsoft-agent-framework/aport_middleware.py)\<close>

text \<open>
  The two contexts of the framework share \<^verbatim>\<open>metadata\<close>, \<^verbatim>\<open>result\<close> and \<^verbatim>\<open>terminate\<close>. The
  function of a function invocation is present through its \<^verbatim>\<open>name\<close> (absent when it has
  none); \<^verbatim>\<open>arguments\<close> and \<^verbatim>\<open>messages\<close> may be absent (\<^verbatim>\<open>hasattr\<close>).

  Of a result the model keeps what identifies it: of an \<^verbatim>\<open>AgentRunResponse\<close> the fixed
  leading text of its message, of a dictionary its \<^verbatim>\<open>error\<close> entry. In the same way an
  \<^verbatim>\<open>error_message\<close> stored in the metadata keeps its fixed leading text. Logging and the
  audit trail (which only logs, inside its own \<^verbatim>\<open>try\<close>) change nothing and are left out.
\<close>

datatype run_result =
    NoResult
  | AgentRunResponse string
  | ErrorDict string
  | OtherResult pyval

record run_context =
  metadata :: "string \<rightharpoonup> pyval"
  result :: run_result
  terminate :: bool

record agent_run_context = run_context +
  is_streaming :: bool
  messages :: "pyval list option"

record function_invocation_context = run_context +
  function_name :: "string option"
  arguments :: "(string \<rightharpoonup> pyval) option"

text \<open>
  What the middleware calls: the two operations of the client, the next middleware
  (which returns the context it leaves behind, and whether it raised), the import of
  the framework's response types (which succeeds or raises \<^verbatim>\<open>ImportError\<close>), and the
  clock. The world records the calls made.
\<close>

record 'c middleware_env =
  client_verify_policy :: "verify_request \<Rightarrow> py_exception + decision"
  client_get_passport_view :: "pyval \<Rightarrow> py_exception + pyval"
  next_middleware :: "'c \<Rightarrow> 'c \<times> py_exception option"
  agent_framework_available :: bool
  utcnow :: string

record middleware_world =
  policy_requests :: "verify_request list"
  passport_requests :: "pyval list"
  next_calls :: nat

text \<open>
  \<^verbatim>\<open>str.lower\<close> on code points below 256: the capital letters of ASCII and of Latin-1
  move up by 32.
\<close>

definition lower_char :: "char \<Rightarrow> char" where
  "lower_char c =
     (let n = (of_char c :: nat)
      in if (65 \<le> n \<and> n \<le> 90) \<or> (192 \<le> n \<and> n \<le> 222 \<and> n \<noteq> 215)
         then char_of (n + 32) else c)"

definition lower :: "string \<Rightarrow> string" where
  "lower s = map lower_char s"

text \<open>
  \<^verbatim>\<open>
  def _default_policy_mapping(function_name):
      policy_map = {
          "execute_refund": "finance.payment.refund.v1",
          "process_refund": "finance.payment.refund.v1",
          "refund": "finance.payment.refund.v1",
          "export_data": "data.export.create.v1",
          "create_export": "data.export.create.v1",
          "merge_pull_request": "code.repository.merge.v1",
          "deploy": "code.deployment.create.v1",
          "send_message": "messaging.message.send.v1",
      }
      return policy_map.get(function_name.lower())
  \<close>
\<close>

definition policy_map :: "(string \<times> string) list" where
  "policy_map =
     [(''execute_refund'', ''finance.payment.refund.v1''),
      (''process_refund'', ''finance.payment.refund.v1''),
      (''refund'', ''finance.payment.refund.v1''),
      (''export_data'', ''data.export.create.v1''),
      (''create_export'', ''data.export.create.v1''),
      (''merge_pull_request'', ''code.repository.merge.v1''),
      (''deploy'', ''code.deployment.create.v1''),
      (''send_message'', ''messaging.message.send.v1'')]"

definition default_policy_mapping :: "string \<Rightarrow> pyval" where
  "default_policy_mapping fname =
     (case map_of policy_map (lower fname) of None \<Rightarrow> PNone | Some p \<Rightarrow> PStr p)"

text \<open>
  \<^verbatim>\<open>
  def extract_context_data(context):
      return {"action": context.metadata.get("action", "unknown"),
              "resource": context.metadata.get("resource"), "amount": ..., "currency": ...,
              "region": ..., "customer_id": ..., "order_id": ...,
              "timestamp": context.metadata.get("timestamp", datetime.utcnow().isoformat()),
              "message_count": len(context.messages) if hasattr(context, "messages") else 0}

  def extract_function_context_data(context):
      args = context.arguments if hasattr(context, "arguments") else {}
      return {"function_name": context.function.name if hasattr(context.function, "name") else "unknown",
              "action": context.metadata.get("action", "unknown"),
              **args,
              "timestamp": context.metadata.get("timestamp", datetime.utcnow().isoformat())}
  \<close>
\<close>

definition extract_context_data :: "string \<Rightarrow> agent_run_context \<Rightarrow> (string \<rightharpoonup> pyval)" where
  "extract_context_data now ctx =
     [''action'' \<mapsto> md_get_default (metadata ctx) ''action'' (PStr ''unknown''),
      ''resource'' \<mapsto> md_get (metadata ctx) ''resource'',
      ''amount'' \<mapsto> md_get (metadata ctx) ''amount'',
      ''currency'' \<mapsto> md_get (metadata ctx) ''currency'',
      ''region'' \<mapsto> md_get (metadata ctx) ''region'',
      ''customer_id'' \<mapsto> md_get (metadata ctx) ''customer_id'',
      ''order_id'' \<mapsto> md_get (metadata ctx) ''order_id'',
      ''timestamp'' \<mapsto> md_get_default (metadata ctx) ''timestamp'' (PStr now),
      ''message_count'' \<mapsto>
         (case messages ctx of None \<Rightarrow> PInt 0 | Some ms \<Rightarrow> PInt (int (length ms)))]"

definition name_of_function :: "function_invocation_context \<Rightarrow> string" where
  "name_of_function ctx = (case function_name ctx of None \<Rightarrow> ''unknown'' | Some n \<Rightarrow> n)"



text \<open>
  \<^verbatim>\<open>
  try:
      from agent_framework import AgentRunResponse, ChatMessage, Role
      context.result = AgentRunResponse(messages=[ChatMessage(role=Role.ASSISTANT, text=...)])
  except ImportError:
      context.result = {"error": ..., ...}
  \<close>
\<close>

definition respond :: "'c middleware_env \<Rightarrow> string \<Rightarrow> string \<Rightarrow> run_result" where
  "respond env text code =
     (if agent_framework_available env then AgentRunResponse text else ErrorDict code)"

definition set_error_metadata ::
  "string \<Rightarrow> string \<Rightarrow> (string \<rightharpoonup> pyval) \<Rightarrow> (string \<rightharpoonup> pyval)" where
  "set_error_metadata code text md = md(''error'' \<mapsto> PStr code, ''error_message'' \<mapsto> PStr text)"

definition agent_id_of :: "(string \<rightharpoonup> pyval) \<Rightarrow> pyval" where
  "agent_id_of md = py_or (md_get md ''agent_id'') (md_get md ''agent_passport_id'')"

subsection \<open>Function-based agent run middleware\<close>

text \<open>
  \<^verbatim>\<open>
  async def aport_agent_middleware(context, next):
      client = APortClient(...)
      try:
          agent_id = context.metadata.get("agent_id") or context.metadata.get("agent_passport_id")
          if not agent_id:
              context.terminate = True
              if not context.is_streaming:
                  from agent_framework import AgentRunResponse, ChatMessage, Role
                  context.result = AgentRunResponse(messages=[ChatMessage(role=Role.ASSISTANT,
                      text="Authorization failed: Agent ID is required. Please provide 'agent_id' in metadata.")])
              else:
                  context.metadata["error"] = "missing_agent_id"
                  context.metadata["error_message"] = "Agent ID is required for authorization"
              return
          policy_id = context.metadata.get("policy_id")
          decision = None
          if policy_id:
              try:
                  decision = await client.verify_policy(agent_id=agent_id, policy_id=policy_id,
                      context=extract_context_data(context),
                      idempotency_key=context.metadata.get("idempotency_key"))
                  context.metadata["aport_decision"] = {"decision_id": decision.decision_id,
                      "allow": decision.allow, "assurance_level": decision.assurance_level,
                      "reasons": decision.reasons}
                  if not decision.allow:
                      context.terminate = True
                      if not context.is_streaming:
                          try:
                              from agent_framework import AgentRunResponse, ChatMessage, Role
                              reasons_list = []
                              for r in (decision.reasons or []):
                                  if isinstance(r, dict):
                                      reasons_list.append(r.get("message", r.get("code", "")))
                                  else:
                                      reasons_list.append(str(r))
                              reasons_text = ", ".join(reasons_list)
                              context.result = AgentRunResponse(... f"Authorization denied: ...")
                          except ImportError:
                              context.result = {"error": "policy_violation", ...}
                      else:
                          context.metadata["error"] = "policy_violation"
                          context.metadata["error_message"] = f"Policy violation: {decision.reasons}"
                      return
              except AportError as e:
                  context.terminate = True
                  if not context.is_streaming:
                      try: ... context.result = AgentRunResponse(... f"Authorization failed: {str(e)}. ...")
                      except ImportError: context.result = {"error": "agent_verification_failed", ...}
                  else:
                      context.metadata["error"] = "agent_verification_failed"
                      context.metadata["error_message"] = str(e)
                  return
          else:
              try:
                  passport_view = await client.get_passport_view(agent_id)
                  context.metadata["agent_passport"] = passport_view
              except AportError as e:
                  context.terminate = True
                  if not context.is_streaming:
                      try: ... context.result = AgentRunResponse(... f"Agent verification failed: {str(e)}")
                      except ImportError: context.result = {"error": "agent_verification_failed", ...}
                  else:
                      context.metadata["error"] = "agent_verification_failed"
                      context.metadata["error_message"] = str(e)
                  return
          await next(context)
          if context.result and not context.terminate:
              await generate_audit_trail(client, agent_id, context, decision)
      except Exception as e:
          context.terminate = True
          if not context.is_streaming:
              try: ... context.result = AgentRunResponse(... f"Authorization error: {str(e)}")
              except ImportError: context.result = {"error": "internal_error", ...}
          else:
              context.metadata["error"] = "internal_error"
              context.metadata["error_message"] = f"Authorization failed: {str(e)}"
      finally:
          await client.close()
  \<close>
\<close>

definition internal_error_agent ::
  "agent_run_context middleware_env \<Rightarrow> agent_run_context \<Rightarrow> agent_run_context" where
  "internal_error_agent env ctx =
     (let c = ctx\<lparr>terminate := True\<rparr>
      in if \<not> is_streaming c
         then c\<lparr>result := respond env ''Authorization error: '' ''internal_error''\<rparr>
         else c\<lparr>metadata := set_error_metadata ''internal_error'' ''Authorization failed: '' (metadata c)\<rparr>)"

definition is_str :: "pyval \<Rightarrow> bool" where
  "is_str v = (case v of PStr _ \<Rightarrow> True | _ \<Rightarrow> False)"

definition reason_text_value :: "pyval \<Rightarrow> pyval" where
  "reason_text_value r =
     (case r of
        PDict kvs \<Rightarrow> md_get_default (map_of kvs) ''message'' (md_get_default (map_of kvs) ''code'' (PStr []))
      | _ \<Rightarrow> PStr [])"

text \<open>
  Whether building \<^verbatim>\<open>reasons_text\<close> raises: the reasons cannot be iterated, or an entry
  taken from a dictionary is not a string (\<^verbatim>\<open>str(r)\<close> always is one).
\<close>

definition reasons_text_raises :: "pyval \<Rightarrow> bool" where
  "reasons_text_raises rs =
     (case iter_values (py_or rs (PList [])) of
        NotIterable \<Rightarrow> True
      | Elements xs \<Rightarrow> list_ex (\<lambda>r. \<not> is_str (reason_text_value r)) xs)"

definition agent_policy_request ::
  "agent_run_context middleware_env \<Rightarrow> agent_run_context \<Rightarrow> verify_request" where
  "agent_policy_request env ctx =
     \<lparr>agent_id = agent_id_of (metadata ctx),
      policy_id = md_get (metadata ctx) ''policy_id'',
      policy_context = extract_context_data (utcnow env) ctx,
      idempotency_key = md_get (metadata ctx) ''idempotency_key''\<rparr>"

definition agent_denied ::
  "agent_run_context middleware_env \<Rightarrow> decision \<Rightarrow> agent_run_context \<Rightarrow> agent_run_context" where
  "agent_denied env d ctx =
     (let c = ctx\<lparr>terminate := True\<rparr>
      in if \<not> is_streaming c then
           (if agent_framework_available env then
              (if reasons_text_raises (reasons d) then internal_error_agent env c
               else c\<lparr>result := AgentRunResponse ''Authorization denied: ''\<rparr>)
            else c\<lparr>result := ErrorDict ''policy_violation''\<rparr>)
         else c\<lparr>metadata := set_error_metadata ''policy_violation'' ''Policy violation: '' (metadata c)\<rparr>)"

definition agent_aport_error ::
  "agent_run_context middleware_env \<Rightarrow> string \<Rightarrow> aport_error \<Rightarrow> agent_run_context
     \<Rightarrow> agent_run_context" where
  "agent_aport_error env text e ctx =
     (let c = ctx\<lparr>terminate := True\<rparr>
      in if \<not> is_streaming c
         then c\<lparr>result := respond env text ''agent_verification_failed''\<rparr>
         else c\<lparr>metadata := set_error_metadata ''agent_verification_failed'' (error_message e) (metadata c)\<rparr>)"

definition agent_next ::
  "agent_run_context middleware_env \<Rightarrow> agent_run_context \<Rightarrow> middleware_world
     \<Rightarrow> agent_run_context \<times> middleware_world" where
  "agent_next env ctx w =
     (let after = next_middleware env ctx;
          w' = w\<lparr>next_calls := next_calls w + 1\<rparr>
      in case snd after of
           None \<Rightarrow> (fst after, w')
         | Some e \<Rightarrow> (internal_error_agent env (fst after), w'))"

definition aport_agent_middleware ::
  "agent_run_context middleware_env \<Rightarrow> agent_run_context \<Rightarrow> middleware_world
     \<Rightarrow> agent_run_context \<times> middleware_world" where
  "aport_agent_middleware env ctx w =
     (let agent = agent_id_of (metadata ctx)
      in if \<not> truthy agent then
           (let c = ctx\<lparr>terminate := True\<rparr>
            in if \<not> is_streaming c then
                 (if agent_framework_available env
                  then (c\<lparr>result := AgentRunResponse
                          ''Authorization failed: Agent ID is required. Please provide 'agent_id' in metadata.''\<rparr>, w)
                  else (internal_error_agent env c, w))
               else (c\<lparr>metadata := set_error_metadata ''missing_agent_id''
                                      ''Agent ID is required for authorization'' (metadata c)\<rparr>, w))
         else
           (let policy = md_get (metadata ctx) ''policy_id''
            in if truthy policy then
                 (let request = agent_policy_request env ctx;
                      w1 = w\<lparr>policy_requests := policy_requests w @ [request]\<rparr>
                  in case client_verify_policy env request of
                       Inl (AportError e) \<Rightarrow> (agent_aport_error env ''Authorization failed: '' e ctx, w1)
                     | Inl _ \<Rightarrow> (internal_error_agent env ctx, w1)
                     | Inr d \<Rightarrow>
                         (let c1 = ctx\<lparr>metadata := (metadata ctx)(''aport_decision'' \<mapsto>
                                      PDict [(''decision_id'', PStr (decision_id d)),
                                             (''allow'', PBool (allow d)),
                                             (''assurance_level'', assurance_level d),
                                             (''reasons'', reasons d)])\<rparr>
                          in if \<not> allow d then (agent_denied env d c1, w1)
                             else agent_next env c1 w1))
               else
                 (let w1 = w\<lparr>passport_requests := passport_requests w @ [agent]\<rparr>
                  in case client_get_passport_view env agent of
                       Inl (AportError e) \<Rightarrow>
                         (agent_aport_error env ''Agent verification failed: '' e ctx, w1)
                     | Inl _ \<Rightarrow> (internal_error_agent env ctx, w1)
                     | Inr passport_view \<Rightarrow>
                         agent_next env
                           (ctx\<lparr>metadata := (metadata ctx)(''agent_passport'' \<mapsto> passport_view)\<rparr>) w1)))"

subsection \<open>Function-based function calling middleware\<close>


definition resolve_policy_id :: "function_invocation_context \<Rightarrow> pyval" where
  "resolve_policy_id ctx =
     py_or (md_get (metadata ctx) ''policy_id'')
       (py_or (md_get (metadata ctx) (''policy_'' @ name_of_function ctx))
          (default_policy_mapping (name_of_function ctx)))"




subsection \<open>Class-based agent run middleware\<close>

text \<open>
  \<^verbatim>\<open>
  async def process(self, context, next):
      async with APortClient(self.client_options) as client:
          try:
              agent_id = context.metadata.get("agent_id") or context.metadata.get("agent_passport_id")
              if not agent_id:
                  self.logger.warning("Agent ID missing in context metadata")
              context.terminate = True
              if not context.is_streaming:
                  try:
                      from agent_framework import AgentRunResponse, ChatMessage, Role
                      context.result = AgentRunResponse(messages=[ChatMessage(role=Role.ASSISTANT,
                          text="Authorization failed: Agent ID is required.")])
                  except ImportError:
                      context.result = {"error": "missing_agent_id",
                                        "message": "Agent ID is required for authorization"}
              return
              policy_id = context.metadata.get("policy_id")
              ...
              await next(context)
              ...
          except AportError as e: ...
          except Exception as e: ...
  \<close>
  Only the warning is inside \<^verbatim>\<open>if not agent_id\<close>; the statements after \<^verbatim>\<open>return\<close> (policy
  verification, \<^verbatim>\<open>next\<close>, the audit trail) are never reached, and nothing before it
  raises, so the two handlers are never entered.
\<close>

definition AportAgentMiddleware_process ::
  "agent_run_context middleware_env \<Rightarrow> agent_run_context \<Rightarrow> middleware_world
     \<Rightarrow> agent_run_context \<times> middleware_world" where
  "AportAgentMiddleware_process env ctx w =
     (let agent = agent_id_of (metadata ctx);
          c = ctx\<lparr>terminate := True\<rparr>
      in if \<not> is_streaming c
         then (c\<lparr>result := respond env ''Authorization failed: Agent ID is required.''
                              ''missing_agent_id''\<rparr>, w)
         else (c, w))"


section \<open>Notions and concrete inputs used in the statements\<close>




text \<open>
  The allowlist and the requests of the specification's example: servers \<open>[A]\<close>, tools
  \<open>[X]\<close>.
\<close>

definition example_passport :: passport_view where
  "example_passport = \<lparr>mcp = Some \<lparr>mcp_servers = Some [''A''], mcp_tools = Some [''X'']\<rparr>\<rparr>"

definition example_request :: "string list \<Rightarrow> string list \<Rightarrow> mcp_headers" where
  "example_request ss ts =
     \<lparr>servers = ss, tools = ts, session = None,
      server = first_or_none ss, tool = first_or_none ts\<rparr>"

text \<open>A passport with the refund capability and a given per-transaction limit.\<close>

definition refund_passport :: "int \<Rightarrow> passport_data" where
  "refund_passport l =
     \<lparr>capabilities = Some [\<lparr>cap_id = ''finance.payment.refund''\<rparr>],
      limits = Some [''refund_amount_max_per_tx'' \<mapsto> l]\<rparr>"

text \<open>Decisions, a remote authority that counts the verifications it performs, worlds.\<close>

definition allow_decision :: decision where
  "allow_decision =
     \<lparr>decision_id = ''dec_1'', allow = True, assurance_level = PStr ''L2'', reasons = PNone\<rparr>"


definition counting_remote :: "decision \<Rightarrow> nat client" where
  "counting_remote d request n = (Inr d, Suc n)"

definition fresh_world :: "nat world" where
  "fresh_world = \<lparr>remote = 0, sent = [], func_calls = 0\<rparr>"

text \<open>Two calls of \<^verbatim>\<open>verify\<close> with the same arguments, one after the other.\<close>

definition verify_twice ::
  "'s client \<Rightarrow> string \<Rightarrow> string \<Rightarrow> (string \<rightharpoonup> pyval) \<Rightarrow> string option \<Rightarrow> 's world
     \<Rightarrow> (py_exception + decision) \<times> (py_exception + decision) \<times> 's world" where
  "verify_twice client agent policy ctx key w =
     (let first = verify client agent policy ctx key w;
          second = verify client agent policy ctx key (snd first)
      in (fst first, fst second, snd second))"

definition refund_context :: "string \<rightharpoonup> pyval" where
  "refund_context = [''amount'' \<mapsto> PInt 5000, ''currency'' \<mapsto> PStr ''USD'']"

definition empty_world :: middleware_world where
  "empty_world = \<lparr>policy_requests = [], passport_requests = [], next_calls = 0\<rparr>"

text \<open>
  An environment whose client answers every verification with the given decision and
  every passport request with a passport, and whose next middleware sets a result.
\<close>

definition example_env :: "decision \<Rightarrow> 'a run_context_scheme middleware_env" where
  "example_env d =
     \<lparr>client_verify_policy = (\<lambda>request. Inr d),
      client_get_passport_view = (\<lambda>agent. Inr (PDict [(''status'', PStr ''active'')])),
      next_middleware = (\<lambda>c. (c\<lparr>result := OtherResult (PStr ''done'')\<rparr>, None)),
      agent_framework_available = False,
      utcnow = ''2025-01-01T00:00:00''\<rparr>"

definition function_context :: "(string \<rightharpoonup> pyval) \<Rightarrow> string \<Rightarrow> function_invocation_context" where
  "function_context md name =
     \<lparr>metadata = md, result = NoResult, terminate = False,
      function_name = Some name, arguments = Some Map.empty\<rparr>"

definition agent_context :: "(string \<rightharpoonup> pyval) \<Rightarrow> agent_run_context" where
  "agent_context md =
     \<lparr>metadata = md, result = NoResult, terminate = False,
      is_streaming = False, messages = Some []\<rparr>"

definition with_agent :: "string \<rightharpoonup> pyval" where
  "with_agent = [''agent_id'' \<mapsto> PStr ''ap_test'']"

definition with_agent_and_policy :: "string \<rightharpoonup> pyval" where
  "with_agent_and_policy =
     [''agent_id'' \<mapsto> PStr ''ap_test'', ''policy_id'' \<mapsto> PStr ''finance.payment.refund.v1'']"


section \<open>Properties of the assurance comparison\<close>

lemma index_of_None: "index_of xs x = None \<longleftrightarrow> x \<notin> set xs"
  by (induction xs) auto

lemma index_of_Some:
  "index_of xs x = Some i \<longleftrightarrow> i < length xs \<and> xs ! i = x \<and> x \<notin> set (take i xs)"
proof (induction xs arbitrary: i)
  case Nil
  show ?case by simp
next
  case (Cons y ys)
  show ?case
  proof (cases "y = x")
    case True
    then show ?thesis by (cases i) auto
  next
    case False
    then show ?thesis using Cons.IH by (cases i) auto
  qed
qed

lemma levels_index:
  "index_of levels ''L0'' = Some 0" "index_of levels ''L1'' = Some 1"
  "index_of levels ''L2'' = Some 2" "index_of levels ''L3'' = Some 3"
  "index_of levels ''L4KYC'' = Some 4" "index_of levels ''L4FIN'' = Some 5"
  by (simp_all add: levels_def)

text \<open>
  C4. The comparison follows the order of the tier list: it answers true exactly when
  both names occur in the list and the position of \<open>current\<close> is at least the position
  of \<open>required\<close>. On \<open>L0 < L1 < L2 < L3\<close> this is the stated order, \<open>compare(L2, L3)\<close> is
  false, \<open>compare(L3, L2)\<close> is true, and a name outside the list, on either side, gives
  false.
\<close>

theorem compare_assurance_levels_order:
  "(compare_assurance_levels c r \<longleftrightarrow>
      (\<exists>i j. i < length levels \<and> j < length levels \<and> levels ! i = c \<and> levels ! j = r
           \<and> c \<notin> set (take i levels) \<and> r \<notin> set (take j levels) \<and> j \<le> i))
   \<and> (\<forall>i < 4. \<forall>j < 4. compare_assurance_levels (levels ! i) (levels ! j) \<longleftrightarrow> j \<le> i)
   \<and> take 4 levels = [''L0'', ''L1'', ''L2'', ''L3'']
   \<and> \<not> compare_assurance_levels ''L2'' ''L3''
   \<and> compare_assurance_levels ''L3'' ''L2''
   \<and> (c \<notin> set levels \<longrightarrow> \<not> compare_assurance_levels c r)
   \<and> (r \<notin> set levels \<longrightarrow> \<not> compare_assurance_levels c r)"
proof -
  have general: "compare_assurance_levels c r \<longleftrightarrow>
      (\<exists>i j. i < length levels \<and> j < length levels \<and> levels ! i = c \<and> levels ! j = r
           \<and> c \<notin> set (take i levels) \<and> r \<notin> set (take j levels) \<and> j \<le> i)"
  proof -
    have "compare_assurance_levels c r \<longleftrightarrow>
        (\<exists>i j. index_of levels c = Some i \<and> index_of levels r = Some j \<and> j \<le> i)"
      unfolding compare_assurance_levels_def by (auto split: option.splits)
    also have "\<dots> \<longleftrightarrow>
        (\<exists>i j. i < length levels \<and> j < length levels \<and> levels ! i = c \<and> levels ! j = r
           \<and> c \<notin> set (take i levels) \<and> r \<notin> set (take j levels) \<and> j \<le> i)"
      unfolding index_of_Some by blast
    finally show ?thesis .
  qed
  have idx: "\<And>i. i < 4 \<Longrightarrow> index_of levels (levels ! i) = Some i"
  proof -
    fix i :: nat
    assume "i < 4"
    then consider "i = 0" | "i = 1" | "i = 2" | "i = 3" by linarith
    then show "index_of levels (levels ! i) = Some i"
      by cases (simp_all add: levels_def)
  qed
  have low: "\<forall>i < 4. \<forall>j < 4. compare_assurance_levels (levels ! i) (levels ! j) \<longleftrightarrow> j \<le> i"
    by (simp add: compare_assurance_levels_def idx)
  have pre: "take 4 levels = [''L0'', ''L1'', ''L2'', ''L3'']"
    by (simp add: levels_def)
  have ex1: "\<not> compare_assurance_levels ''L2'' ''L3''"
    by (simp add: compare_assurance_levels_def levels_index)
  have ex2: "compare_assurance_levels ''L3'' ''L2''"
    by (simp add: compare_assurance_levels_def levels_index)
  have unk1: "c \<notin> set levels \<longrightarrow> \<not> compare_assurance_levels c r"
    by (simp add: compare_assurance_levels_def index_of_None [symmetric])
  have unk2: "r \<notin> set levels \<longrightarrow> \<not> compare_assurance_levels c r"
    by (simp add: compare_assurance_levels_def index_of_None [symmetric] split: option.splits)
  from general low pre ex1 ex2 unk1 unk2 show ?thesis by blast
qed

theorem compare_assurance_levels_order_witness:
  "''L9'' \<notin> set levels \<and> \<not> compare_assurance_levels ''L9'' ''L1''
   \<and> \<not> compare_assurance_levels ''L1'' ''L9''
   \<and> compare_assurance_levels (levels ! 3) (levels ! 1)"
proof -
  have a: "''L9'' \<notin> set levels" by (simp add: levels_def)
  have b: "(3::nat) < 4" "(1::nat) < 4" "(1::nat) \<le> 3" by simp_all
  from compare_assurance_levels_order [of "''L9''" "''L1''"]
       compare_assurance_levels_order [of "''L1''" "''L9''"] a b
  show ?thesis by blast
qed

text \<open>
  C5 as stated fails: the tier list is one linear order, so the financial-grade tier,
  placed after the KYC-grade tier, satisfies a requirement of the KYC-grade tier.
\<close>

theorem top_tier_independence_counterexample:
  "compare_assurance_levels ''L4FIN'' ''L4KYC''"
  by (simp add: compare_assurance_levels_def levels_index)

text \<open>
  C5, amended. Both top tiers strictly exceed \<open>L3\<close> (each satisfies \<open>L3\<close>, \<open>L3\<close> satisfies
  neither); the two are ordered, not independent: \<open>L4FIN\<close> satisfies a requirement of
  \<open>L4KYC\<close>, and \<open>L4KYC\<close> does not satisfy a requirement of \<open>L4FIN\<close>.
\<close>

theorem top_tiers_linear:
  "compare_assurance_levels ''L4KYC'' ''L3'' \<and> \<not> compare_assurance_levels ''L3'' ''L4KYC''
   \<and> compare_assurance_levels ''L4FIN'' ''L3'' \<and> \<not> compare_assurance_levels ''L3'' ''L4FIN''
   \<and> compare_assurance_levels ''L4FIN'' ''L4KYC''
   \<and> \<not> compare_assurance_levels ''L4KYC'' ''L4FIN''"
  by (simp add: compare_assurance_levels_def levels_index)


section \<open>Properties of the per-transaction limit\<close>

lemma amount_formats: "\<not> hundredth_overflows 5000"
  by (simp add: hundredth_overflows_def)

lemma refund_passport_fields:
  "has_refund_cap (refund_passport l)"
  "get_limit (refund_passport l) ''refund_amount_max_per_tx'' = Some l"
  by (simp_all add: has_refund_cap_def get_limit_def refund_passport_def)

text \<open>
  C8 as stated fails at the limit 0: the block tests the limit for truth before it
  compares, so with a limit of 0 nothing is compared, and the amount 5000 is not
  reported as exceeding the limit although \<open>5000 > 0\<close>.
\<close>

theorem refund_limit_zero_counterexample:
  "demonstrate_refund_limit (refund_passport 0) = NotChecked \<and> \<not> (5000::int) \<le> 0"
  by (simp add: demonstrate_refund_limit_def refund_passport_fields int_truthy_def)

text \<open>
  C8, amended. The requested amount is the code's constant 5000. On a passport that
  holds the refund capability and carries a limit \<open>L\<close> other than 0 whose hundredth is
  representable as a float, the check passes exactly when \<open>5000 \<le> L\<close> and reports the excess
  otherwise: the bound is inclusive, with \<open>L = 5000\<close> the amount passes and with
  \<open>L = 4999\<close> it is reported as exceeding the limit. (With a limit too large for its
  hundredth to be a float, formatting the message raises \<^verbatim>\<open>OverflowError\<close>.)
\<close>

theorem refund_limit_inclusive:
  "(has_refund_cap passport \<and> get_limit passport ''refund_amount_max_per_tx'' = Some L
      \<and> L \<noteq> 0 \<and> \<not> hundredth_overflows L
      \<longrightarrow> (demonstrate_refund_limit passport = WithinLimit \<longleftrightarrow> 5000 \<le> L)
        \<and> (demonstrate_refund_limit passport = ExceedsLimit \<longleftrightarrow> \<not> 5000 \<le> L))
   \<and> (has_refund_cap passport \<and> get_limit passport ''refund_amount_max_per_tx'' = Some L
      \<and> hundredth_overflows L
      \<longrightarrow> demonstrate_refund_limit passport = OverflowErrorRaised)
   \<and> demonstrate_refund_limit (refund_passport 5000) = WithinLimit
   \<and> demonstrate_refund_limit (refund_passport 4999) = ExceedsLimit"
proof -
  have nonzero: "L \<noteq> 0" if "hundredth_overflows L"
    using that by (auto simp: hundredth_overflows_def)
  have general: "has_refund_cap passport \<and> get_limit passport ''refund_amount_max_per_tx'' = Some L
      \<and> L \<noteq> 0 \<and> \<not> hundredth_overflows L
      \<longrightarrow> (demonstrate_refund_limit passport = WithinLimit \<longleftrightarrow> 5000 \<le> L)
        \<and> (demonstrate_refund_limit passport = ExceedsLimit \<longleftrightarrow> \<not> 5000 \<le> L)"
    by (simp add: demonstrate_refund_limit_def int_truthy_def amount_formats Let_def)
  have huge: "has_refund_cap passport \<and> get_limit passport ''refund_amount_max_per_tx'' = Some L
      \<and> hundredth_overflows L
      \<longrightarrow> demonstrate_refund_limit passport = OverflowErrorRaised"
    using nonzero
    by (auto simp: demonstrate_refund_limit_def int_truthy_def Let_def)
  have small: "\<not> hundredth_overflows 5000" "\<not> hundredth_overflows 4999"
    by (simp_all add: hundredth_overflows_def)
  have at_5000: "demonstrate_refund_limit (refund_passport 5000) = WithinLimit"
    by (simp add: demonstrate_refund_limit_def refund_passport_fields int_truthy_def small Let_def)
  have at_4999: "demonstrate_refund_limit (refund_passport 4999) = ExceedsLimit"
    by (simp add: demonstrate_refund_limit_def refund_passport_fields int_truthy_def small Let_def)
  from general huge at_5000 at_4999 show ?thesis by blast
qed

theorem refund_limit_inclusive_witness:
  "has_refund_cap (refund_passport 100)
   \<and> get_limit (refund_passport 100) ''refund_amount_max_per_tx'' = Some 100
   \<and> demonstrate_refund_limit (refund_passport 100) = ExceedsLimit
   \<and> demonstrate_refund_limit (refund_passport 7000) = WithinLimit
   \<and> hundredth_overflows (100 * (2 ^ 1024 - 2 ^ 970))
   \<and> demonstrate_refund_limit (refund_passport (100 * (2 ^ 1024 - 2 ^ 970))) = OverflowErrorRaised"
proof -
  have small: "\<not> hundredth_overflows 100" "\<not> hundredth_overflows 7000"
    by (simp_all add: hundredth_overflows_def)
  have huge: "hundredth_overflows (100 * (2 ^ 1024 - 2 ^ 970))"
    by (simp add: hundredth_overflows_def)
  from refund_limit_inclusive [of "refund_passport 100" 100]
  have 1: "demonstrate_refund_limit (refund_passport 100) = ExceedsLimit"
    by (simp add: refund_passport_fields small)
  from refund_limit_inclusive [of "refund_passport 7000" 7000]
  have 2: "demonstrate_refund_limit (refund_passport 7000) = WithinLimit"
    by (simp add: refund_passport_fields small)
  from refund_limit_inclusive
         [of "refund_passport (100 * (2 ^ 1024 - 2 ^ 970))" "100 * (2 ^ 1024 - 2 ^ 970)"] huge
  have 3: "demonstrate_refund_limit (refund_passport (100 * (2 ^ 1024 - 2 ^ 970)))
             = OverflowErrorRaised"
    by (simp only: refund_passport_fields simp_thms)
  from 1 2 3 huge refund_passport_fields [of 100] show ?thesis by blast
qed


section \<open>Properties of the retry loop\<close>















section \<open>Properties of the MCP header extraction\<close>

lemma split_on_not_Nil: "split_on c s \<noteq> []"
  by (induction s) (auto split: list.splits)

lemma join_Cons_Cons: "join sep ((x # p) # ps) = x # join sep (p # ps)"
  by (cases ps) simp_all

text \<open>Splitting loses nothing: joining the pieces with the separator gives the string back.\<close>

lemma join_split_on: "join [c] (split_on c s) = s"
proof (induction s)
  case Nil
  show ?case by simp
next
  case (Cons x xs)
  obtain p ps where sp: "split_on c xs = p # ps"
    using split_on_not_Nil [of c xs] by (cases "split_on c xs") auto
  show ?case
  proof (cases "x = c")
    case True
    with Cons sp show ?thesis by simp
  next
    case False
    with Cons sp show ?thesis by (simp add: join_Cons_Cons)
  qed
qed

lemma split_on_no_sep: "p \<in> set (split_on c s) \<Longrightarrow> c \<notin> set p"
  by (induction s arbitrary: p) (auto split: if_splits list.splits)

lemma strip_split:
  "dropWhile is_space s = strip s @ rev (takeWhile is_space (rev (dropWhile is_space s)))"
proof -
  define t where "t = dropWhile is_space s"
  have "strip s @ rev (takeWhile is_space (rev t))
          = rev (takeWhile is_space (rev t) @ dropWhile is_space (rev t))"
    by (simp only: strip_def t_def rev_append)
  also have "\<dots> = rev (rev t)" by (simp only: takeWhile_dropWhile_id)
  also have "\<dots> = t" by simp
  finally show ?thesis by (simp only: t_def)
qed

text \<open>Stripping removes white space only, and only at the two ends.\<close>

lemma strip_decompose:
  "\<exists>a b. s = a @ strip s @ b \<and> list_all is_space a \<and> list_all is_space b"
proof -
  let ?t = "dropWhile is_space s"
  let ?b = "rev (takeWhile is_space (rev ?t))"
  have "s = takeWhile is_space s @ ?t" by simp
  also have "?t = strip s @ ?b" by (rule strip_split)
  finally have "s = takeWhile is_space s @ strip s @ ?b" .
  moreover have "list_all is_space (takeWhile is_space s)"
    by (auto simp: list_all_iff dest: set_takeWhileD)
  moreover have "list_all is_space ?b"
    by (auto simp: list_all_iff dest: set_takeWhileD)
  ultimately show ?thesis by blast
qed

lemma strip_ends:
  "strip s = [] \<or> (\<not> is_space (hd (strip s)) \<and> \<not> is_space (last (strip s)))"
proof (cases "strip s = []")
  case True
  then show ?thesis by simp
next
  case False
  define t where "t = dropWhile is_space s"
  define u where "u = dropWhile is_space (rev t)"
  have st: "strip s = rev u" by (simp only: strip_def t_def u_def)
  with False have u: "u \<noteq> []" by simp
  have dec: "t = rev u @ rev (takeWhile is_space (rev t))"
    using strip_split [of s] by (simp only: st t_def)
  from u have "rev u \<noteq> []" by simp
  with dec have t: "t \<noteq> []" and hd: "hd t = hd (rev u)"
    by (metis Nil_is_append_conv, metis hd_append2)
  from t have "\<not> is_space (hd t)" unfolding t_def by (rule hd_dropWhile)
  moreover from u have "\<not> is_space (hd u)" unfolding u_def by (rule hd_dropWhile)
  moreover have "last (rev u) = hd u" using u by (simp add: last_rev)
  ultimately show ?thesis using hd st by simp
qed

lemma parse_list_header_commas:
  assumes "header = Some h" "CHR '','' \<in> set h"
  shows "\<exists>pieces. join '','' pieces = h \<and> list_all (\<lambda>p. CHR '','' \<notin> set p) pieces
           \<and> parse_list_header header = map strip pieces"
proof -
  from assms have "h \<noteq> []" by auto
  with assms have "parse_list_header header = map strip (split_on (CHR '','') h)"
    by (simp add: parse_list_header_def str_truthy_def)
  moreover have "join '','' (split_on (CHR '','') h) = h" by (rule join_split_on)
  moreover have "list_all (\<lambda>p. CHR '','' \<notin> set p) (split_on (CHR '','') h)"
    by (auto simp: list_all_iff dest: split_on_no_sep)
  ultimately show ?thesis by blast
qed

lemma parse_list_header_single:
  "header = Some h \<Longrightarrow> h \<noteq> [] \<Longrightarrow> CHR '','' \<notin> set h \<Longrightarrow> parse_list_header header = [h]"
  by (simp add: parse_list_header_def str_truthy_def)

lemma parse_list_header_absent:
  "\<not> str_truthy header \<Longrightarrow> parse_list_header header = []"
  by (simp add: parse_list_header_def)

text \<open>
  C10. In the mapping \<^verbatim>\<open>extract_mcp_headers\<close> returns, \<open>server\<close> is the first element of
  \<open>servers\<close> and \<open>tool\<close> the first element of \<open>tools\<close>, \<open>None\<close> when the list is empty. A
  header that contains a comma is cut at its commas (the pieces, joined by commas, are
  the header, and no piece contains a comma) and each piece is stripped: what is
  removed is white space at the two ends, and what remains neither starts nor ends
  with white space. A header without a comma becomes the one-element list of the
  value as it is; a missing or empty header gives the empty list.
\<close>

theorem extract_mcp_headers_legacy_fields:
  "server (extract_mcp_headers hs)
     = (case servers (extract_mcp_headers hs) of [] \<Rightarrow> None | x # _ \<Rightarrow> Some x)
   \<and> tool (extract_mcp_headers hs)
     = (case tools (extract_mcp_headers hs) of [] \<Rightarrow> None | x # _ \<Rightarrow> Some x)
   \<and> (servers_header hs = Some h \<and> CHR '','' \<in> set h \<longrightarrow>
        (\<exists>pieces. join '','' pieces = h \<and> list_all (\<lambda>p. CHR '','' \<notin> set p) pieces
           \<and> servers (extract_mcp_headers hs) = map strip pieces))
   \<and> (tools_header hs = Some h \<and> CHR '','' \<in> set h \<longrightarrow>
        (\<exists>pieces. join '','' pieces = h \<and> list_all (\<lambda>p. CHR '','' \<notin> set p) pieces
           \<and> tools (extract_mcp_headers hs) = map strip pieces))
   \<and> (servers_header hs = Some h \<and> h \<noteq> [] \<and> CHR '','' \<notin> set h \<longrightarrow>
        servers (extract_mcp_headers hs) = [h])
   \<and> (tools_header hs = Some h \<and> h \<noteq> [] \<and> CHR '','' \<notin> set h \<longrightarrow>
        tools (extract_mcp_headers hs) = [h])
   \<and> (\<not> str_truthy (servers_header hs) \<longrightarrow> servers (extract_mcp_headers hs) = [])
   \<and> (\<not> str_truthy (tools_header hs) \<longrightarrow> tools (extract_mcp_headers hs) = [])
   \<and> (\<exists>a b. p = a @ strip p @ b \<and> list_all is_space a \<and> list_all is_space b)
   \<and> (strip p = [] \<or> (\<not> is_space (hd (strip p)) \<and> \<not> is_space (last (strip p))))"
proof -
  have fields: "servers (extract_mcp_headers hs) = parse_list_header (servers_header hs)"
    "tools (extract_mcp_headers hs) = parse_list_header (tools_header hs)"
    "server (extract_mcp_headers hs) = first_or_none (servers (extract_mcp_headers hs))"
    "tool (extract_mcp_headers hs) = first_or_none (tools (extract_mcp_headers hs))"
    by (simp_all add: extract_mcp_headers_def Let_def)
  have 1: "server (extract_mcp_headers hs)
     = (case servers (extract_mcp_headers hs) of [] \<Rightarrow> None | x # _ \<Rightarrow> Some x)"
    by (simp only: fields(3) first_or_none_def)
  have 2: "tool (extract_mcp_headers hs)
     = (case tools (extract_mcp_headers hs) of [] \<Rightarrow> None | x # _ \<Rightarrow> Some x)"
    by (simp only: fields(4) first_or_none_def)
  have 3: "servers_header hs = Some h \<and> CHR '','' \<in> set h \<longrightarrow>
        (\<exists>pieces. join '','' pieces = h \<and> list_all (\<lambda>p. CHR '','' \<notin> set p) pieces
           \<and> servers (extract_mcp_headers hs) = map strip pieces)"
    unfolding fields using parse_list_header_commas by blast
  have 4: "tools_header hs = Some h \<and> CHR '','' \<in> set h \<longrightarrow>
        (\<exists>pieces. join '','' pieces = h \<and> list_all (\<lambda>p. CHR '','' \<notin> set p) pieces
           \<and> tools (extract_mcp_headers hs) = map strip pieces)"
    unfolding fields using parse_list_header_commas by blast
  have 5: "servers_header hs = Some h \<and> h \<noteq> [] \<and> CHR '','' \<notin> set h \<longrightarrow>
        servers (extract_mcp_headers hs) = [h]"
    unfolding fields using parse_list_header_single by blast
  have 6: "tools_header hs = Some h \<and> h \<noteq> [] \<and> CHR '','' \<notin> set h \<longrightarrow>
        tools (extract_mcp_headers hs) = [h]"
    unfolding fields using parse_list_header_single by blast
  have 7: "\<not> str_truthy (servers_header hs) \<longrightarrow> servers (extract_mcp_headers hs) = []"
    unfolding fields using parse_list_header_absent by blast
  have 8: "\<not> str_truthy (tools_header hs) \<longrightarrow> tools (extract_mcp_headers hs) = []"
    unfolding fields using parse_list_header_absent by blast
  note 9 = strip_decompose [of p] and 10 = strip_ends [of p]
  from 1 2 3 4 5 6 7 8 9 10 show ?thesis by blast
qed

theorem extract_mcp_headers_legacy_fields_witness:
  "servers_header [''X-MCP-Servers'' \<mapsto> ''a, b''] = Some ''a, b''
   \<and> CHR '','' \<in> set ''a, b''
   \<and> servers (extract_mcp_headers [''X-MCP-Servers'' \<mapsto> ''a, b'']) = [''a'', ''b'']
   \<and> server (extract_mcp_headers [''X-MCP-Servers'' \<mapsto> ''a, b'']) = Some ''a''
   \<and> tools (extract_mcp_headers [''X-MCP-Servers'' \<mapsto> ''a, b'']) = []
   \<and> tool (extract_mcp_headers [''X-MCP-Servers'' \<mapsto> ''a, b'']) = None
   \<and> tools_header [''X-MCP-Tool'' \<mapsto> '' t''] = Some '' t''
   \<and> tools (extract_mcp_headers [''X-MCP-Tool'' \<mapsto> '' t'']) = ['' t'']"
proof -
  let ?hs = "[''X-MCP-Servers'' \<mapsto> ''a, b'']"
  let ?ht = "[''X-MCP-Tool'' \<mapsto> '' t'']"
  have sh: "servers_header ?hs = Some ''a, b''"
    by (simp add: servers_header_def str_or_def str_truthy_def)
  have th: "\<not> str_truthy (tools_header ?hs)"
    by (simp add: tools_header_def str_or_def str_truthy_def)
  have tt: "tools_header ?ht = Some '' t''"
    by (simp add: tools_header_def str_or_def str_truthy_def)
  have comma: "CHR '','' \<in> set ''a, b''" "CHR '','' \<notin> set '' t''" "'' t'' \<noteq> []"
    by simp_all
  have sv: "servers (extract_mcp_headers ?hs) = [''a'', ''b'']"
    by (simp add: extract_mcp_headers_def Let_def parse_list_header_def sh str_truthy_def
          strip_def is_space_def)
  note a = extract_mcp_headers_legacy_fields [of ?hs "''a, b''" "''a''"]
  note b = extract_mcp_headers_legacy_fields [of ?ht "'' t''" "''a''"]
  from a sh th sv have "server (extract_mcp_headers ?hs) = Some ''a''"
    "tools (extract_mcp_headers ?hs) = []" "tool (extract_mcp_headers ?hs) = None"
    by simp_all
  moreover from b tt comma have "tools (extract_mcp_headers ?ht) = ['' t'']" by blast
  ultimately show ?thesis using sh comma(1) sv tt by blast
qed


section \<open>Properties of the MCP allowlist validation\<close>

lemma unauthorized_empty_iff:
  "unauthorized requested allowed = [] \<longleftrightarrow> set requested \<subseteq> set allowed"
  by (auto simp: unauthorized_def filter_empty_conv)

lemma set_unauthorized: "set (unauthorized requested allowed) = set requested - set allowed"
  by (auto simp: unauthorized_def)

lemma example_allowlists:
  "allowed_servers example_passport = [''A'']" "allowed_tools example_passport = [''X'']"
  by (simp_all add: allowed_servers_def allowed_tools_def example_passport_def)

text \<open>
  C3. Once the passport is fetched, the validation passes exactly when every
  requested server and every requested tool is on its allowlist; a single server or
  tool outside it fails the whole request with status 403. With no server and no
  tool requested the validation passes, and the endpoints then do not even fetch
  the passport.
\<close>

theorem validate_mcp_conjunctive:
  assumes "get_passport_view agent = Inr passport"
  shows "(validate_mcp_against_passport get_passport_view agent h = Inr True
            \<longleftrightarrow> set (servers h) \<subseteq> set (allowed_servers passport)
                \<and> set (tools h) \<subseteq> set (allowed_tools passport))
       \<and> ((\<exists>s \<in> set (servers h). s \<notin> set (allowed_servers passport))
            \<or> (\<exists>t \<in> set (tools h). t \<notin> set (allowed_tools passport))
          \<longrightarrow> (\<exists>e. validate_mcp_against_passport get_passport_view agent h = Inl e
                   \<and> status_code e = 403))
       \<and> (servers h = [] \<and> tools h = []
          \<longrightarrow> validate_mcp_against_passport get_passport_view agent h = Inr True)
       \<and> (servers h = [] \<and> tools h = []
          \<longrightarrow> endpoint_mcp_validation any_passport_view agent h = Inr True)"
  using assms
  by (auto simp: validate_mcp_against_passport_def endpoint_mcp_validation_def
        unauthorized_empty_iff)

theorem validate_mcp_conjunctive_witness:
  "validate_mcp_against_passport (\<lambda>agent. Inr example_passport) ''ap_test''
       (example_request [''A''] [''X'']) = Inr True
   \<and> (\<exists>e. validate_mcp_against_passport (\<lambda>agent. Inr example_passport) ''ap_test''
             (example_request [''A'', ''B''] [''X'']) = Inl e \<and> status_code e = 403)
   \<and> validate_mcp_against_passport (\<lambda>agent. Inr example_passport) ''ap_test''
       (example_request [] []) = Inr True
   \<and> endpoint_mcp_validation (\<lambda>agent. Inl \<lparr>status = Some 503, error_message = ''down''\<rparr>)
       ''ap_test'' (example_request [] []) = Inr True"
proof -
  let ?gpv = "\<lambda>agent::string. Inr example_passport :: aport_error + passport_view"
  let ?down = "\<lambda>agent::string. Inl \<lparr>status = Some 503, error_message = ''down''\<rparr>
                 :: aport_error + passport_view"
  have fetched: "?gpv ''ap_test'' = Inr example_passport" by simp
  have req: "servers (example_request ss ts) = ss" "tools (example_request ss ts) = ts" for ss ts
    by (simp_all add: example_request_def)
  from validate_mcp_conjunctive [OF fetched, where h="example_request [''A''] [''X'']"]
  have 1: "validate_mcp_against_passport ?gpv ''ap_test'' (example_request [''A''] [''X'']) = Inr True"
    by (simp add: req example_allowlists)
  from validate_mcp_conjunctive [OF fetched, where h="example_request [''A'', ''B''] [''X'']"]
  have 2: "\<exists>e. validate_mcp_against_passport ?gpv ''ap_test''
             (example_request [''A'', ''B''] [''X'']) = Inl e \<and> status_code e = 403"
    by (simp add: req example_allowlists)
  from validate_mcp_conjunctive
         [OF fetched, where h="example_request [] []" and any_passport_view="?down"]
  have 3: "validate_mcp_against_passport ?gpv ''ap_test'' (example_request [] []) = Inr True"
    and 4: "endpoint_mcp_validation ?down ''ap_test'' (example_request [] []) = Inr True"
    by (simp_all add: req)
  from 1 2 3 4 show ?thesis by blast
qed

text \<open>
  C6 as stated fails: a failure carries one set only. With the allowlist of the
  example and the servers \<open>[A, B]\<close> requested, the result is the same whether the
  requested tools are all allowed (\<open>[X]\<close>) or not (\<open>[Y]\<close>): it names the server \<open>B\<close> and no
  tool, although the unauthorized tools differ.
\<close>

theorem mcp_failure_both_sets_counterexample:
  "validate_mcp_against_passport (\<lambda>agent. Inr example_passport) ''ap_test''
       (example_request [''A'', ''B''] [''Y''])
     = Inl (HTTPException 403 ''mcp_server_not_allowed''
              ''MCP server(s) B not in passport allowlist. Allowed servers: A'')
   \<and> validate_mcp_against_passport (\<lambda>agent. Inr example_passport) ''ap_test''
       (example_request [''A'', ''B''] [''X''])
     = Inl (HTTPException 403 ''mcp_server_not_allowed''
              ''MCP server(s) B not in passport allowlist. Allowed servers: A'')
   \<and> unauthorized [''Y''] (allowed_tools example_passport) = [''Y'']
   \<and> unauthorized [''X''] (allowed_tools example_passport) = []"
  by (simp add: validate_mcp_against_passport_def example_request_def example_allowlists
        unauthorized_def)

text \<open>
  C6, amended. The validation computes the unauthorized servers as the requested
  servers that are not on the allowlist, in the order of the request, and likewise the
  unauthorized tools. It checks the servers first: when some server is unauthorized
  the failure is \<open>mcp_server_not_allowed\<close> and carries the unauthorized servers and the
  allowed servers, nothing about tools; when all servers are allowed and some tool is
  unauthorized the failure is \<open>mcp_tool_not_allowed\<close> and carries the unauthorized tools
  and the allowed tools. In the example (allowlist servers \<open>[A]\<close>, tools \<open>[X]\<close>; request
  servers \<open>[A, B]\<close>, tools \<open>[X]\<close>) the denial is \<open>mcp_server_not_allowed\<close> naming \<open>B\<close>.
\<close>

theorem mcp_failure_reports_first_violation:
  assumes "get_passport_view agent = Inr passport"
  shows "set (unauthorized (servers h) (allowed_servers passport))
           = set (servers h) - set (allowed_servers passport)
       \<and> set (unauthorized (tools h) (allowed_tools passport))
           = set (tools h) - set (allowed_tools passport)
       \<and> (unauthorized (servers h) (allowed_servers passport) \<noteq> [] \<longrightarrow>
            validate_mcp_against_passport get_passport_view agent h
              = Inl (HTTPException 403 ''mcp_server_not_allowed''
                      (''MCP server(s) ''
                       @ join '', '' (unauthorized (servers h) (allowed_servers passport))
                       @ '' not in passport allowlist. Allowed servers: ''
                       @ join '', '' (allowed_servers passport))))
       \<and> (unauthorized (servers h) (allowed_servers passport) = []
            \<and> unauthorized (tools h) (allowed_tools passport) \<noteq> [] \<longrightarrow>
            validate_mcp_against_passport get_passport_view agent h
              = Inl (HTTPException 403 ''mcp_tool_not_allowed''
                      (''MCP tool(s) ''
                       @ join '', '' (unauthorized (tools h) (allowed_tools passport))
                       @ '' not in passport allowlist. Allowed tools: ''
                       @ join '', '' (allowed_tools passport))))"
proof -
  have nonempty: "servers h \<noteq> []" if "unauthorized (servers h) (allowed_servers passport) \<noteq> []"
    using that by (auto simp: unauthorized_def)
  have nonempty': "tools h \<noteq> []" if "unauthorized (tools h) (allowed_tools passport) \<noteq> []"
    using that by (auto simp: unauthorized_def)
  show ?thesis
    using assms nonempty nonempty'
    by (auto simp: validate_mcp_against_passport_def set_unauthorized)
qed

theorem mcp_failure_reports_first_violation_witness:
  "validate_mcp_against_passport (\<lambda>agent. Inr example_passport) ''ap_test''
       (example_request [''A'', ''B''] [''X''])
     = Inl (HTTPException 403 ''mcp_server_not_allowed''
              ''MCP server(s) B not in passport allowlist. Allowed servers: A'')
   \<and> validate_mcp_against_passport (\<lambda>agent. Inr example_passport) ''ap_test''
       (example_request [''A''] [''Y'', ''X'', ''Z''])
     = Inl (HTTPException 403 ''mcp_tool_not_allowed''
              ''MCP tool(s) Y, Z not in passport allowlist. Allowed tools: X'')"
proof -
  let ?gpv = "\<lambda>agent::string. Inr example_passport :: aport_error + passport_view"
  have fetched: "?gpv ''ap_test'' = Inr example_passport" by simp
  have req: "servers (example_request ss ts) = ss" "tools (example_request ss ts) = ts" for ss ts
    by (simp_all add: example_request_def)
  from mcp_failure_reports_first_violation
         [OF fetched, where h="example_request [''A'', ''B''] [''X'']"]
  have 1: "validate_mcp_against_passport ?gpv ''ap_test'' (example_request [''A'', ''B''] [''X''])
     = Inl (HTTPException 403 ''mcp_server_not_allowed''
              ''MCP server(s) B not in passport allowlist. Allowed servers: A'')"
    by (simp add: req example_allowlists unauthorized_def)
  from mcp_failure_reports_first_violation
         [OF fetched, where h="example_request [''A''] [''Y'', ''X'', ''Z'']"]
  have 2: "validate_mcp_against_passport ?gpv ''ap_test'' (example_request [''A''] [''Y'', ''X'', ''Z''])
     = Inl (HTTPException 403 ''mcp_tool_not_allowed''
              ''MCP tool(s) Y, Z not in passport allowlist. Allowed tools: X'')"
    by (simp add: req example_allowlists unauthorized_def)
  from 1 2 show ?thesis by blast
qed


section \<open>Properties of the verification call\<close>

lemma verify_sent: "sent (snd (verify client agent policy ctx key w))
    = sent w @ [request_of agent policy ctx key]"
  by (simp add: verify_def Let_def split: sum.splits)

lemma verify_remote: "remote (snd (verify client agent policy ctx key w))
    = snd (client (request_of agent policy ctx key) (remote w))"
  by (simp add: verify_def Let_def split: sum.splits)

lemma verify_result:
  "fst (verify client agent policy ctx key w) = Inr d
     \<longleftrightarrow> fst (client (request_of agent policy ctx key) (remote w)) = Inr d \<and> allow d"
  by (auto simp: verify_def Let_def split: sum.splits)

lemma verify_answer_only:
  "fst (verify client agent policy ctx key w)
     = fst (verify client agent policy ctx key
              (w\<lparr>remote := r, sent := anything\<rparr>))"
  if "fst (client (request_of agent policy ctx key) (remote w))
        = fst (client (request_of agent policy ctx key) r)"
  using that by (simp add: verify_def Let_def split: sum.splits)

text \<open>
  C2 as stated fails: \<^verbatim>\<open>verify\<close> keeps nothing between calls. Two calls with the key
  \<open>k1\<close>, against a remote authority that answers both with the decision \<open>dec_1\<close>, hand
  the request to the client twice: the authority has performed two verifications.
\<close>

theorem verify_replay_counterexample:
  "snd (snd (verify_twice (counting_remote allow_decision) ''ap_test''
              ''finance.payment.refund.v1'' refund_context (Some ''k1'') fresh_world))
     = \<lparr>remote = 2,
        sent = [request_of ''ap_test'' ''finance.payment.refund.v1'' refund_context (Some ''k1''),
                request_of ''ap_test'' ''finance.payment.refund.v1'' refund_context (Some ''k1'')],
        func_calls = 0\<rparr>"
  by (simp add: verify_twice_def verify_def counting_remote_def fresh_world_def Let_def
        allow_decision_def)

text \<open>
  C2, amended. Every call of \<^verbatim>\<open>verify\<close> hands its request, idempotency key included,
  to the client exactly once, so two calls with the same key perform two verification
  calls; each returns the decision the remote authority gave to that call when it
  allows (and raises otherwise). The two calls therefore return the same decision,
  with the same \<open>decision_id\<close> and \<open>allow\<close>, whenever the authority answers the two
  requests alike.
\<close>

theorem verify_forwards_every_call:
  "sent (snd (snd (verify_twice client agent policy ctx key w)))
     = sent w @ [request_of agent policy ctx key, request_of agent policy ctx key]
   \<and> idempotency_key (request_of agent policy ctx key)
       = (case key of None \<Rightarrow> PNone | Some k \<Rightarrow> PStr k)
   \<and> (fst (verify_twice client agent policy ctx key w) = Inr d
        \<longleftrightarrow> fst (client (request_of agent policy ctx key) (remote w)) = Inr d \<and> allow d)
   \<and> (fst (snd (verify_twice client agent policy ctx key w)) = Inr d
        \<longleftrightarrow> fst (client (request_of agent policy ctx key)
                    (snd (client (request_of agent policy ctx key) (remote w)))) = Inr d
            \<and> allow d)
   \<and> (fst (client (request_of agent policy ctx key) (remote w))
        = fst (client (request_of agent policy ctx key)
                 (snd (client (request_of agent policy ctx key) (remote w))))
      \<longrightarrow> fst (verify_twice client agent policy ctx key w)
            = fst (snd (verify_twice client agent policy ctx key w)))"
proof -
  let ?req = "request_of agent policy ctx key"
  let ?first = "verify client agent policy ctx key w"
  let ?second = "verify client agent policy ctx key (snd ?first)"
  have tw: "verify_twice client agent policy ctx key w = (fst ?first, fst ?second, snd ?second)"
    by (simp add: verify_twice_def Let_def)
  have 1: "sent (snd ?second) = sent w @ [?req, ?req]"
    by (simp add: verify_sent)
  have 2: "idempotency_key ?req = (case key of None \<Rightarrow> PNone | Some k \<Rightarrow> PStr k)"
    by (simp add: request_of_def)
  have 3: "fst ?first = Inr d \<longleftrightarrow> fst (client ?req (remote w)) = Inr d \<and> allow d"
    by (rule verify_result)
  have 4: "fst ?second = Inr d
      \<longleftrightarrow> fst (client ?req (snd (client ?req (remote w)))) = Inr d \<and> allow d"
    by (simp add: verify_result verify_remote)
  have 5: "fst (client ?req (remote w)) = fst (client ?req (snd (client ?req (remote w))))
      \<longrightarrow> fst ?first = fst ?second"
  proof
    assume same: "fst (client ?req (remote w)) = fst (client ?req (snd (client ?req (remote w))))"
    have "snd ?first = w\<lparr>remote := snd (client ?req (remote w)), sent := sent w @ [?req]\<rparr>"
      by (simp add: verify_def Let_def split: sum.splits)
    with verify_answer_only
           [where client=client and agent=agent and policy=policy and ctx=ctx and key=key
              and w=w and r="snd (client ?req (remote w))" and anything="sent w @ [?req]"] same
    show "fst ?first = fst ?second" by simp
  qed
  from 1 2 3 4 5 show ?thesis unfolding tw by simp
qed

theorem verify_forwards_every_call_witness:
  "fst (verify_twice (counting_remote allow_decision) ''ap_test'' ''finance.payment.refund.v1''
          refund_context (Some ''k1'') fresh_world)
     = fst (snd (verify_twice (counting_remote allow_decision) ''ap_test''
                   ''finance.payment.refund.v1'' refund_context (Some ''k1'') fresh_world))
   \<and> length (sent (snd (snd (verify_twice (counting_remote allow_decision) ''ap_test''
                   ''finance.payment.refund.v1'' refund_context (Some ''k1'') fresh_world)))) = 2"
proof -
  have same: "fst (counting_remote allow_decision r (remote fresh_world))
        = fst (counting_remote allow_decision r
                 (snd (counting_remote allow_decision r (remote fresh_world))))" for r
    by (simp add: counting_remote_def)
  have start: "sent fresh_world = []" by (simp add: fresh_world_def)
  from verify_forwards_every_call
         [of "counting_remote allow_decision" "''ap_test''" "''finance.payment.refund.v1''"
             refund_context "Some ''k1''" fresh_world allow_decision]
       same start
  show ?thesis by simp
qed


section \<open>Properties of the guarded operations\<close>









lemma example_agent_ids:
  "agent_id_of with_agent = PStr ''ap_test''"
  "agent_id_of with_agent_and_policy = PStr ''ap_test''"
  "agent_id_of Map.empty = PNone"
  by (simp_all add: agent_id_of_def py_or_def md_get_def with_agent_def with_agent_and_policy_def)

lemma example_policy_ids:
  "resolve_policy_id (function_context with_agent ''execute_refund'')
     = PStr ''finance.payment.refund.v1''"
  "resolve_policy_id (function_context with_agent ''lookup_order'') = PNone"
  "md_get with_agent_and_policy ''policy_id'' = PStr ''finance.payment.refund.v1''"
  "md_get with_agent ''policy_id'' = PNone"
  by (simp_all add: resolve_policy_id_def function_context_def with_agent_def
        with_agent_and_policy_def py_or_def md_get_def name_of_function_def
        default_policy_mapping_def policy_map_def lower_def lower_char_def)

lemma example_contexts:
  "metadata (function_context md name) = md" "metadata (agent_context md) = md"
  by (simp_all add: function_context_def agent_context_def)

lemma example_env_answers:
  "client_verify_policy (example_env d) request = Inr d"
  "client_get_passport_view (example_env d) agent = Inr (PDict [(''status'', PStr ''active'')])"
  by (simp_all add: example_env_def)



text \<open>
  C9. Whatever the context carries (a valid agent id, a policy that the authority
  would allow), the class-based \<^verbatim>\<open>process\<close> sets \<open>terminate\<close> and returns with the world
  as it was: no policy request, no passport request, no invocation of \<open>next\<close>. The
  function-based \<^verbatim>\<open>aport_agent_middleware\<close> does not behave so: on a context with an agent
  id and a policy that is allowed it invokes \<open>next\<close> and does not terminate.
\<close>

theorem class_process_always_terminates:
  "terminate (fst (AportAgentMiddleware_process env ctx w))
   \<and> snd (AportAgentMiddleware_process env ctx w) = w
   \<and> truthy (agent_id_of (metadata (agent_context with_agent_and_policy)))
   \<and> truthy (md_get (metadata (agent_context with_agent_and_policy)) ''policy_id'')
   \<and> terminate (fst (AportAgentMiddleware_process (example_env allow_decision)
                       (agent_context with_agent_and_policy) empty_world))
   \<and> snd (AportAgentMiddleware_process (example_env allow_decision)
            (agent_context with_agent_and_policy) empty_world) = empty_world
   \<and> \<not> terminate (fst (aport_agent_middleware (example_env allow_decision)
                         (agent_context with_agent_and_policy) empty_world))
   \<and> next_calls (snd (aport_agent_middleware (example_env allow_decision)
                        (agent_context with_agent_and_policy) empty_world)) = 1
   \<and> length (policy_requests (snd (aport_agent_middleware (example_env allow_decision)
                        (agent_context with_agent_and_policy) empty_world))) = 1"
proof -
  have always: "terminate (fst (AportAgentMiddleware_process env ctx w))
      \<and> snd (AportAgentMiddleware_process env ctx w) = w" for env ctx w
    by (simp add: AportAgentMiddleware_process_def Let_def)
  have ids: "truthy (agent_id_of (metadata (agent_context with_agent_and_policy)))"
    "truthy (md_get (metadata (agent_context with_agent_and_policy)) ''policy_id'')"
    by (simp_all add: example_contexts example_agent_ids example_policy_ids)
  have run: "aport_agent_middleware (example_env allow_decision)
        (agent_context with_agent_and_policy) empty_world
      = agent_next (example_env allow_decision)
          ((agent_context with_agent_and_policy)
             \<lparr>metadata := (metadata (agent_context with_agent_and_policy))
                (''aport_decision'' \<mapsto>
                   PDict [(''decision_id'', PStr (decision_id allow_decision)),
                          (''allow'', PBool (allow allow_decision)),
                          (''assurance_level'', assurance_level allow_decision),
                          (''reasons'', reasons allow_decision)])\<rparr>)
          (empty_world\<lparr>policy_requests := policy_requests empty_world
             @ [agent_policy_request (example_env allow_decision)
                  (agent_context with_agent_and_policy)]\<rparr>)"
    using ids
    by (simp add: aport_agent_middleware_def Let_def example_env_answers allow_decision_def)
  have function_based:
    "\<not> terminate (fst (aport_agent_middleware (example_env allow_decision)
                         (agent_context with_agent_and_policy) empty_world))"
    "next_calls (snd (aport_agent_middleware (example_env allow_decision)
                        (agent_context with_agent_and_policy) empty_world)) = 1"
    "length (policy_requests (snd (aport_agent_middleware (example_env allow_decision)
                        (agent_context with_agent_and_policy) empty_world))) = 1"
    unfolding run
    by (simp_all add: agent_next_def Let_def example_env_def agent_context_def empty_world_def)
  from always ids function_based show ?thesis by blast
qed

end
